theory Spec2Isabelle
  imports Complex_Main
begin

section \<open>The interactive card (src/components/3d/EventCard3D.tsx)\<close>

text \<open>
  JavaScript numbers are modelled as \<^typ>\<open>real\<close>: the claims below are about the structure
  of the handlers (which fields change, which elements a list keeps), not about rounding.
  \<open>Math.random()\<close> is an input: a handler that draws random numbers takes the stream
  \<open>rnd\<close>, where \<open>rnd i\<close> is the value of the \<open>i\<close>-th call made while the handler runs.
  The counter \<open>particleIdRef\<close> and the millisecond clock are natural numbers.
\<close>

subsection \<open>State\<close>

text \<open>The elements of the \<open>particles\<close> array: \<open>{id, x, y, vx, vy}\<close>.\<close>

record particle =
  p_id :: nat
  p_x :: real
  p_y :: real
  p_vx :: real
  p_vy :: real

text \<open>
  The component's \<open>useState\<close> cells, its ref counter and its two motion values. \<open>clock\<close>
  is the simulated time in milliseconds and \<open>timeouts\<close> holds the due time of every pending
  \<open>setTimeout\<close> callback; the only callback the component ever schedules is
  \<open>() => setIsFlipping(false)\<close> (line 176).
\<close>

record card =
  isFlipped :: bool
  isFlipping :: bool
  isFocused :: bool
  particles :: "particle list"
  particleIdRef :: nat
  mouseX :: real
  mouseY :: real
  clock :: nat
  timeouts :: "nat list"

definition initialCard :: card where
  "initialCard = \<lparr>isFlipped = False, isFlipping = False, isFocused = False, particles = [],
     particleIdRef = 0, mouseX = 0, mouseY = 0, clock = 0, timeouts = []\<rparr>"

subsection \<open>Particles\<close>

text \<open>\<open>xs.slice(-n)\<close>: the last \<open>n\<close> elements, all of them when there are fewer.\<close>

definition slice_neg :: "nat \<Rightarrow> 'a list \<Rightarrow> 'a list" where
  "slice_neg n xs = drop (length xs - n) xs"

text \<open>
  The \<open>k\<close>-th element built by \<open>Array.from({ length: 3 }, ...)\<close> in \<open>createParticleBurst\<close>
  (lines 109-115). Each element reads the counter, then draws four random numbers in the
  order x, y, vx, vy.
\<close>

definition burstParticle :: "(nat \<Rightarrow> real) \<Rightarrow> nat \<Rightarrow> nat \<Rightarrow> particle" where
  "burstParticle rnd idref k =
     \<lparr>p_id = idref + k,
      p_x = rnd (4 * k) * 400,
      p_y = rnd (4 * k + 1) * 300 + 100,
      p_vx = (rnd (4 * k + 2) - 0.5) * 2,
      p_vy = - rnd (4 * k + 3) * 2 - 1\<rparr>"

definition createParticleBurst :: "(nat \<Rightarrow> real) \<Rightarrow> card \<Rightarrow> card" where
  "createParticleBurst rnd st =
     st\<lparr>particles :=
          slice_neg 20 (particles st @ map (burstParticle rnd (particleIdRef st)) [0..<3]),
        particleIdRef := particleIdRef st + 3\<rparr>"

text \<open>The \<open>k\<close>-th element of \<open>explosionParticles\<close> in \<open>handleCardClick\<close> (lines 181-187).\<close>

definition explosionParticle :: "(nat \<Rightarrow> real) \<Rightarrow> nat \<Rightarrow> nat \<Rightarrow> particle" where
  "explosionParticle rnd idref k =
     \<lparr>p_id = idref + k,
      p_x = 200 + (rnd (4 * k) - 0.5) * 100,
      p_y = 300 + (rnd (4 * k + 1) - 0.5) * 100,
      p_vx = (rnd (4 * k + 2) - 0.5) * 8,
      p_vy = - rnd (4 * k + 3) * 6 - 3\<rparr>"

text \<open>
  The state update inside \<open>animateParticles\<close> (lines 83-92): \<open>prev.map(...).filter(...)\<close>.
  The object spread keeps \<open>id\<close> and \<open>vx\<close>; the right-hand sides read the old particle.
\<close>

definition moveParticle :: "particle \<Rightarrow> particle" where
  "moveParticle p = p\<lparr>p_x := p_x p + p_vx p, p_y := p_y p + p_vy p, p_vy := p_vy p + 0.2\<rparr>"

definition inBounds :: "particle \<Rightarrow> bool" where
  "inBounds p = (p_y p < 600 \<and> p_x p > -50 \<and> p_x p < 450)"

definition animateParticles :: "particle list \<Rightarrow> particle list" where
  "animateParticles prev = filter inBounds (map moveParticle prev)"

subsection \<open>Event handlers\<close>

record mouse_event =
  clientX :: real
  clientY :: real

text \<open>The fields of \<open>getBoundingClientRect()\<close> that \<open>handleMouseMove\<close> reads.\<close>

record dom_rect =
  rect_left :: real
  rect_top :: real
  rect_width :: real
  rect_height :: real

text \<open>
  \<open>handleMouseMove\<close> (lines 120-137). \<open>cardRef\<close> is \<open>cardRef.current\<close>, \<open>None\<close> for null;
  \<open>isHovered\<close> is the prop owned by the parent. The random number of line 134 is drawn
  only when \<open>isHovered\<close> holds, and the burst draws after it. The model of the two
  quotients is exact for a rectangle of non-zero width and height.
\<close>

definition handleMouseMove ::
  "mouse_event \<Rightarrow> dom_rect option \<Rightarrow> bool \<Rightarrow> (nat \<Rightarrow> real) \<Rightarrow> card \<Rightarrow> card" where
  "handleMouseMove e cardRef isHovered rnd st =
     (case cardRef of
        None \<Rightarrow> st
      | Some rect \<Rightarrow>
          if isFlipped st then st
          else
            let centerX = rect_left rect + rect_width rect / 2;
                centerY = rect_top rect + rect_height rect / 2;
                mouseXPercent = (clientX e - centerX) / (rect_width rect / 2);
                mouseYPercent = (clientY e - centerY) / (rect_height rect / 2);
                st' = st\<lparr>mouseX := mouseXPercent, mouseY := mouseYPercent\<rparr>
            in if isHovered \<and> rnd 0 > 0.95
               then createParticleBurst (\<lambda>i. rnd (Suc i)) st'
               else st')"

text \<open>
  \<open>handleMouseEnter\<close> (lines 139-150) and \<open>handleMouseLeave\<close> (lines 152-164). The calls
  \<open>onHover()\<close>, \<open>onLeave()\<close> and \<open>controls.start(...)\<close> act on the parent and on the outer
  element's animation; they do not touch the state modelled here.
\<close>

definition handleMouseEnter :: "(nat \<Rightarrow> real) \<Rightarrow> card \<Rightarrow> card" where
  "handleMouseEnter rnd st = createParticleBurst rnd st"

definition handleMouseLeave :: "card \<Rightarrow> card" where
  "handleMouseLeave st = st\<lparr>mouseX := 0, mouseY := 0, particles := []\<rparr>"

text \<open>
  \<open>handleCardClick\<close> (lines 166-190). The timeout is registered for 800 ms after the
  current time; the explosion is appended with \<open>[...prev, ...explosionParticles]\<close>.
\<close>

definition handleCardClick :: "(nat \<Rightarrow> real) \<Rightarrow> card \<Rightarrow> card" where
  "handleCardClick rnd st =
     st\<lparr>isFlipping := True,
        isFlipped := \<not> isFlipped st,
        mouseX := 0,
        mouseY := 0,
        timeouts := timeouts st @ [clock st + 800],
        particles := particles st @ map (explosionParticle rnd (particleIdRef st)) [0..<15],
        particleIdRef := particleIdRef st + 15\<rparr>"

definition handleFocus :: "card \<Rightarrow> card" where
  "handleFocus st = st\<lparr>isFocused := True\<rparr>"

definition handleBlur :: "card \<Rightarrow> card" where
  "handleBlur st = st\<lparr>isFocused := False\<rparr>"

text \<open>
  The simulated clock moves forward by \<open>d\<close> milliseconds and every timeout that is due by
  then runs its callback \<open>setIsFlipping(false)\<close> and leaves the pending list.
\<close>

definition advanceTimers :: "nat \<Rightarrow> card \<Rightarrow> card" where
  "advanceTimers d st =
     (let t = clock st + d in
      st\<lparr>clock := t,
         timeouts := filter (\<lambda>due. t < due) (timeouts st),
         isFlipping := (if filter (\<lambda>due. due \<le> t) (timeouts st) = [] then isFlipping st else False)\<rparr>)"

text \<open>
  The events a mounted card receives. \<open>IntervalTick\<close> is the callback of the 800 ms
  interval of lines 70-78, which exists only while the card is hovered or focused;
  \<open>AnimationFrame\<close> is one run of \<open>animateParticles\<close>. React re-renders between two
  discrete events, so every handler reads the state the previous one left.
\<close>

datatype card_event =
    MouseMove mouse_event "dom_rect option" bool "nat \<Rightarrow> real"
  | MouseEnter "nat \<Rightarrow> real"
  | MouseLeave
  | Click "nat \<Rightarrow> real"
  | Focus
  | Blur
  | IntervalTick bool "nat \<Rightarrow> real"
  | AnimationFrame
  | Advance nat

fun cardStep :: "card_event \<Rightarrow> card \<Rightarrow> card" where
  "cardStep (MouseMove e cardRef isHovered rnd) st = handleMouseMove e cardRef isHovered rnd st"
| "cardStep (MouseEnter rnd) st = handleMouseEnter rnd st"
| "cardStep MouseLeave st = handleMouseLeave st"
| "cardStep (Click rnd) st = handleCardClick rnd st"
| "cardStep Focus st = handleFocus st"
| "cardStep Blur st = handleBlur st"
| "cardStep (IntervalTick isHovered rnd) st =
     (if isHovered \<or> isFocused st then createParticleBurst rnd st else st)"
| "cardStep AnimationFrame st = st\<lparr>particles := animateParticles (particles st)\<rparr>"
| "cardStep (Advance d) st = advanceTimers d st"

fun cardRun :: "card_event list \<Rightarrow> card \<Rightarrow> card" where
  "cardRun [] st = st"
| "cardRun (ev # evs) st = cardRun evs (cardStep ev st)"

subsection \<open>Pointer-derived transforms and the inner element's animation target\<close>

text \<open>
  Modelled from the spec: \<open>useTransform\<close> belongs to the animation library and is not part
  of the repository's sources. The spec describes it as linear interpolation over the
  input domain, where values outside the domain clamp at the interpolation endpoints.
  The arguments are the value, the input range and the output range.
\<close>

definition useTransform :: "real \<Rightarrow> real \<times> real \<Rightarrow> real \<times> real \<Rightarrow> real" where
  "useTransform v inp out =
     (let c = max (fst inp) (min (snd inp) v)
      in fst out + (snd out - fst out) * ((c - fst inp) / (snd inp - fst inp)))"

text \<open>Lines 59-67; the argument is the smoothed pointer value the source passes.\<close>

definition rotateX :: "real \<Rightarrow> real" where
  "rotateX springY = useTransform springY (-0.5, 0.5) (25, -25)"

definition rotateY :: "real \<Rightarrow> real" where
  "rotateY springX = useTransform springX (-0.5, 0.5) (-25, 25)"

definition levitateY :: "real \<Rightarrow> real" where
  "levitateY springY = useTransform springY (-0.5, 0.5) (-30, -60)"

definition levitateZ :: "real \<Rightarrow> real" where
  "levitateZ springX = useTransform springX (-0.5, 0.5) (20, 80)"

definition depthScale :: "real \<Rightarrow> real" where
  "depthScale springY = useTransform springY (-0.5, 0.5) (1.02, 1.15)"

text \<open>
  The \<open>animate\<close> prop of the inner container (lines 269-274). On the hovered or focused
  branch the source passes the motion-value objects \<open>rotateX\<close> and \<open>levitateY\<close> (cast with
  \<open>as any\<close>); the entries \<open>a_rotateX\<close> and \<open>a_y\<close> stand for the value such an object holds.
  \<open>z\<close> and \<open>scale\<close> are number literals in the source.
\<close>

record inner_animate =
  a_rotateX :: real
  a_y :: real
  a_z :: real
  a_scale :: real

definition innerAnimate :: "bool \<Rightarrow> real \<Rightarrow> real \<Rightarrow> card \<Rightarrow> inner_animate" where
  "innerAnimate isHovered springX springY st =
     \<lparr>a_rotateX = (if \<not> isFlipped st \<and> (isHovered \<or> isFocused st) then rotateX springY else 0),
      a_y = (if \<not> isFlipped st \<and> (isHovered \<or> isFocused st) then levitateY springY else 0),
      a_z = (if \<not> isFlipped st \<and> isHovered then 60
             else if \<not> isFlipped st \<and> isFocused st then 100 else 0),
      a_scale = (if \<not> isFlipped st \<and> isHovered then 1.08
                 else if \<not> isFlipped st \<and> isFocused st then 1.12 else 1)\<rparr>"

subsection \<open>The Register button\<close>

text \<open>
  What the button's \<open>onClick\<close> (lines 390-412) does to the outside world, in order:
  \<open>alert(msg)\<close>, \<open>window.open(url, target, features)\<close>, and \<open>newWindow.opener = null\<close>.
\<close>

datatype effect =
    Alert string
  | WindowOpen string string string
  | SetOpenerNull

text \<open>
  \<open>opened\<close> tells whether \<open>window.open\<close> returned a window object. The first component
  of the result tells whether the handler called \<open>e.stopPropagation()\<close>.
\<close>

definition openEventSite :: "string \<Rightarrow> bool \<Rightarrow> effect list" where
  "openEventSite eventUrl opened =
     WindowOpen eventUrl ''_blank'' ''noopener,noreferrer'' # (if opened then [SetOpenerNull] else [])"

definition registerOnClick :: "string \<Rightarrow> bool \<Rightarrow> bool \<times> effect list" where
  "registerOnClick title opened =
     (True,
      if title = ''Brand-o-Vation'' then openEventSite ''https://brand-o-vation.vercel.app/'' opened
      else if title = ''Ventura'' then openEventSite ''https://ventura-zeta.vercel.app/'' opened
      else if title = ''The Paradox Protocol''
        then openEventSite ''https://paradox-protocol-theta.vercel.app/'' opened
      else if title = ''Capitalyze'' then openEventSite ''https://capitalyze.vercel.app/'' opened
      else [Alert (''Registration for '' @ title @ '' coming soon!'')])"

text \<open>
  A click on the Register button. The button is a descendant of the card's root element,
  whose \<open>onClick\<close> is \<open>handleCardClick\<close> (line 242): the event reaches the button's handler
  first and bubbles to the root's handler unless propagation was stopped.
\<close>

definition clickRegisterButton ::
  "string \<Rightarrow> bool \<Rightarrow> (nat \<Rightarrow> real) \<Rightarrow> card \<Rightarrow> card \<times> effect list" where
  "clickRegisterButton title opened rnd st =
     (let r = registerOnClick title opened
      in (if fst r then st else handleCardClick rnd st, snd r))"

section \<open>The viewport-triggered animator (src/components/3d/AnimatedSection.tsx)\<close>

subsection \<open>Props, environment and variants\<close>

datatype animation_type = Slide | Rotate | Scale | Morph | Explode

datatype intensity_level = Light | Medium | Heavy

datatype device_performance = Low | MediumPerformance | High

record props =
  animationType :: animation_type
  triggerOffset :: real
  duration :: real
  intensity :: intensity_level
  className :: string
  enableParticles :: bool
  enable3D :: bool

text \<open>
  The browser signals \<open>getDevicePerformance\<close> reads. \<open>hardwareConcurrency\<close> is 0 when the
  browser does not report it (the source writes \<open>|| 4\<close>), \<open>deviceMemory\<close> is \<open>None\<close> when
  undefined, \<open>userAgentMobile\<close> is the result of the regular-expression test.
\<close>

record navigator_env =
  windowDefined :: bool
  mediaReducedMotion :: bool
  hardwareConcurrency :: nat
  deviceMemory :: "real option"
  userAgentMobile :: bool

definition getDevicePerformance :: "navigator_env \<Rightarrow> device_performance" where
  "getDevicePerformance env =
     (if \<not> windowDefined env then MediumPerformance
      else if mediaReducedMotion env then Low
      else
        let cores = (if hardwareConcurrency env = 0 then 4 else hardwareConcurrency env);
            memory = deviceMemory env
        in if (case memory of None \<Rightarrow> False | Some m \<Rightarrow> m \<noteq> 0 \<and> m < 4) then Low
           else if userAgentMobile env \<and> cores < 4 then Low
           else if cores \<ge> 8 \<and> (case memory of None \<Rightarrow> True | Some m \<Rightarrow> m = 0 \<or> m \<ge> 8) then High
           else MediumPerformance)"

text \<open>
  A variant's style object is the list of its numeric properties in source order; its
  \<open>transition\<close> object is a record whose optional keys are options.
\<close>

record transition =
  tr_duration :: real
  tr_ease :: "real list option"
  tr_staggerChildren :: "real option"
  tr_delayChildren :: "real option"

record variants =
  hidden :: "(string \<times> real) list"
  visible :: "(string \<times> real) list"
  visible_transition :: transition

record settings =
  s_enable3D :: bool
  s_enableParticles :: bool
  s_duration :: real
  s_useGPU :: bool

subsection \<open>The shipped component\<close>

text \<open>Lines 59-69: the performance level is the constant \<open>'low'\<close>.\<close>

definition devicePerformance :: device_performance where
  "devicePerformance = Low"

definition optimizedSettings :: "props \<Rightarrow> settings" where
  "optimizedSettings p =
     \<lparr>s_enable3D = False, s_enableParticles = False, s_duration = duration p * 0.5, s_useGPU = True\<rparr>"

text \<open>\<open>getAnimationVariants\<close> (lines 105-200).\<close>

definition getAnimationVariants :: "props \<Rightarrow> bool \<Rightarrow> variants" where
  "getAnimationVariants p prefersReducedMotion =
     (if prefersReducedMotion then
        \<lparr>hidden = [(''opacity'', 0)],
         visible = [(''opacity'', 1)],
         visible_transition = \<lparr>tr_duration = 0.2, tr_ease = None,
           tr_staggerChildren = None, tr_delayChildren = None\<rparr>\<rparr>
      else
        let adjustedDuration = s_duration (optimizedSettings p) in
        case animationType p of
          Slide \<Rightarrow>
            \<lparr>hidden = [(''opacity'', 0), (''y'', 15)],
             visible = [(''opacity'', 1), (''y'', 0)],
             visible_transition = \<lparr>tr_duration = adjustedDuration * 0.8,
               tr_ease = Some [0.25, 0.46, 0.45, 0.94],
               tr_staggerChildren = Some 0.05, tr_delayChildren = Some 0.05\<rparr>\<rparr>
        | Rotate \<Rightarrow>
            \<lparr>hidden = [(''opacity'', 0), (''scale'', 0.95)],
             visible = [(''opacity'', 1), (''scale'', 1)],
             visible_transition = \<lparr>tr_duration = adjustedDuration * 0.5,
               tr_ease = Some [0.25, 0.46, 0.45, 0.94],
               tr_staggerChildren = Some 0.03, tr_delayChildren = None\<rparr>\<rparr>
        | Scale \<Rightarrow>
            \<lparr>hidden = [(''opacity'', 0), (''scale'', 0.85)],
             visible = [(''opacity'', 1), (''scale'', 1)],
             visible_transition = \<lparr>tr_duration = adjustedDuration * 0.7,
               tr_ease = Some [0.175, 0.885, 0.32, 1.275],
               tr_staggerChildren = Some 0.05, tr_delayChildren = None\<rparr>\<rparr>
        | Morph \<Rightarrow>
            \<lparr>hidden = [(''opacity'', 0), (''scale'', 0.9)],
             visible = [(''opacity'', 1), (''scale'', 1)],
             visible_transition = \<lparr>tr_duration = adjustedDuration * 0.9,
               tr_ease = Some [0.23, 1, 0.32, 1],
               tr_staggerChildren = Some 0.06, tr_delayChildren = None\<rparr>\<rparr>
        | Explode \<Rightarrow>
            \<lparr>hidden = [(''opacity'', 0), (''scale'', 1.2)],
             visible = [(''opacity'', 1), (''scale'', 1)],
             visible_transition = \<lparr>tr_duration = adjustedDuration * 0.6,
               tr_ease = Some [0.19, 1, 0.22, 1],
               tr_staggerChildren = Some 0.03, tr_delayChildren = None\<rparr>\<rparr>)"

text \<open>
  What the component returns (lines 207-235): the props of the outer element and whether
  a \<open>ParticleTrail\<close> element is among its children. The environment is an argument because
  the component runs in it, although the shipped source never reads it.
\<close>

record render_out =
  r_className :: string
  r_initial :: string
  r_variants :: variants
  r_particleTrail :: bool
  r_childStagger :: real
  r_childDelay :: real

definition AnimatedSection :: "props \<Rightarrow> navigator_env \<Rightarrow> bool \<Rightarrow> render_out" where
  "AnimatedSection p env prefersReducedMotion =
     \<lparr>r_className = className p @ '' transform-gpu'',
      r_initial = ''hidden'',
      r_variants = getAnimationVariants p prefersReducedMotion,
      r_particleTrail = False,
      r_childStagger = 0.03,
      r_childDelay = 0.05\<rparr>"

text \<open>
  Modelled from the spec: the animation library that interprets the \<open>initial\<close> prop is not
  part of the repository's sources. The spec's animator "transitions child content from a
  hidden to a visible presentation state": the element is first rendered with the variant
  its \<open>initial\<close> prop names, and \<open>controls.start\<close> animates from there.
\<close>

definition initialStyle :: "render_out \<Rightarrow> (string \<times> real) list" where
  "initialStyle r = (if r_initial r = ''hidden'' then hidden (r_variants r) else visible (r_variants r))"

subsection \<open>The alternative component (src/unnamed/part_001)\<close>

text \<open>Lines 59-73: the performance level comes from the environment.\<close>

definition optimizedSettings_alt :: "props \<Rightarrow> device_performance \<Rightarrow> settings" where
  "optimizedSettings_alt p perf =
     \<lparr>s_enable3D = (enable3D p \<and> perf \<noteq> Low),
      s_enableParticles = (enableParticles p \<and> perf = High),
      s_duration = (if perf = Low then duration p * 0.6 else duration p),
      s_useGPU = (perf \<noteq> Low)\<rparr>"

text \<open>
  \<open>getAnimationVariants\<close> of part_001 (lines 109-236). \<open>when_keys c kvs\<close> is the spread
  \<open>...(c && {...})\<close>, which adds the keys only when the condition holds.
\<close>

definition when_keys :: "bool \<Rightarrow> (string \<times> real) list \<Rightarrow> (string \<times> real) list" where
  "when_keys c kvs = (if c then kvs else [])"

definition getAnimationVariants_alt :: "props \<Rightarrow> device_performance \<Rightarrow> bool \<Rightarrow> variants" where
  "getAnimationVariants_alt p perf prefersReducedMotion =
     (if prefersReducedMotion then
        \<lparr>hidden = [(''opacity'', 0)],
         visible = [(''opacity'', 1)],
         visible_transition = \<lparr>tr_duration = 0.3, tr_ease = None,
           tr_staggerChildren = None, tr_delayChildren = None\<rparr>\<rparr>
      else
        let intensityMultiplier =
              (case intensity p of Light \<Rightarrow> 0.5 | Medium \<Rightarrow> 1
               | Heavy \<Rightarrow> (if perf = Low then 1 else 2));
            use3D = s_enable3D (optimizedSettings_alt p perf);
            adjustedDuration = s_duration (optimizedSettings_alt p perf)
        in
        case animationType p of
          Slide \<Rightarrow>
            \<lparr>hidden = [(''opacity'', 0), (''y'', if perf = Low then 20 else 30)],
             visible = [(''opacity'', 1), (''y'', 0)],
             visible_transition = \<lparr>tr_duration = adjustedDuration * 0.8,
               tr_ease = Some [0.25, 0.46, 0.45, 0.94],
               tr_staggerChildren = Some (if perf = Low then 0.08 else 0.15),
               tr_delayChildren = Some 0.1\<rparr>\<rparr>
        | Rotate \<Rightarrow>
            \<lparr>hidden = [(''opacity'', 0),
                       (''rotateX'', if use3D then -10 * intensityMultiplier else 0),
                       (''rotateY'', if use3D then 5 * intensityMultiplier else 0),
                       (''scale'', 0.95)] @ when_keys use3D [(''z'', -20)],
             visible = [(''opacity'', 1), (''rotateX'', 0), (''rotateY'', 0), (''scale'', 1)]
                       @ when_keys use3D [(''z'', 0)],
             visible_transition = \<lparr>tr_duration = adjustedDuration * 0.5,
               tr_ease = Some [0.25, 0.46, 0.45, 0.94],
               tr_staggerChildren = Some 0.05, tr_delayChildren = None\<rparr>\<rparr>
        | Scale \<Rightarrow>
            \<lparr>hidden = [(''opacity'', 0),
                       (''scale'', if perf = Low then 0.8 else 0.1 * intensityMultiplier),
                       (''rotateZ'', if use3D then (if perf = Low then 45 else 180) else 0)]
                       @ when_keys use3D [(''z'', if perf = Low then -50 else -300)],
             visible = [(''opacity'', 1), (''scale'', 1), (''rotateZ'', 0)]
                       @ when_keys use3D [(''z'', 0)],
             visible_transition = \<lparr>tr_duration = adjustedDuration * 1.3,
               tr_ease = Some [0.175, 0.885, 0.32, 1.275],
               tr_staggerChildren = Some 0.08, tr_delayChildren = None\<rparr>\<rparr>
        | Morph \<Rightarrow>
            \<lparr>hidden = [(''opacity'', 0),
                       (''scale'', 0.3),
                       (''rotateY'', if use3D then (if perf = Low then 90 else 270) * intensityMultiplier
                                     else 0),
                       (''rotateX'', if use3D \<and> perf \<noteq> Low then 45 else 0),
                       (''skewX'', if perf = Low then 10 else 25)]
                       @ when_keys (use3D \<and> perf \<noteq> Low) [(''skewY'', 15)]
                       @ when_keys use3D [(''z'', if perf = Low then -50 else -150)],
             visible = [(''opacity'', 1), (''scale'', 1), (''rotateY'', 0), (''rotateX'', 0),
                        (''skewX'', 0), (''skewY'', 0)] @ when_keys use3D [(''z'', 0)],
             visible_transition = \<lparr>tr_duration = adjustedDuration * 1.8,
               tr_ease = Some [0.23, 1, 0.32, 1],
               tr_staggerChildren = Some 0.12, tr_delayChildren = None\<rparr>\<rparr>
        | Explode \<Rightarrow>
            \<lparr>hidden = [(''opacity'', 0),
                       (''scale'', if perf = Low then 1.5 else 3 * intensityMultiplier),
                       (''rotate'', if use3D then (if perf = Low then 180 else 720) else 0)]
                       @ when_keys (use3D \<and> perf \<noteq> Low) [(''rotateX'', 180), (''rotateY'', 180)]
                       @ when_keys use3D [(''z'', if perf = Low then 100 else 500)],
             visible = [(''opacity'', 1), (''scale'', 1), (''rotate'', 0), (''rotateX'', 0),
                        (''rotateY'', 0)] @ when_keys use3D [(''z'', 0)],
             visible_transition = \<lparr>tr_duration = adjustedDuration * 1.1,
               tr_ease = Some [0.19, 1, 0.22, 1],
               tr_staggerChildren = Some 0.05, tr_delayChildren = None\<rparr>\<rparr>)"

text \<open>The element part_001 returns (lines 243-283).\<close>

definition AnimatedSection_alt :: "props \<Rightarrow> navigator_env \<Rightarrow> bool \<Rightarrow> render_out" where
  "AnimatedSection_alt p env prefersReducedMotion =
     (let perf = getDevicePerformance env;
          optimized = optimizedSettings_alt p perf
      in \<lparr>r_className = className p @ '' '' @ (if s_useGPU optimized then ''transform-gpu'' else []),
          r_initial = ''hidden'',
          r_variants = getAnimationVariants_alt p perf prefersReducedMotion,
          r_particleTrail = s_enableParticles optimized,
          r_childStagger = (if perf = Low then 0.05 else 0.1),
          r_childDelay = (if perf = Low then 0.1 else 0.2)\<rparr>)"

subsection \<open>The intersection effect of the shipped component (lines 72-102)\<close>

text \<open>
  \<open>hasAnimated\<close> is the state cell. \<open>observer\<close> is \<open>None\<close> when no intersection observer is
  attached and \<open>Some h\<close> when one is, where \<open>h\<close> is the value of \<open>hasAnimated\<close> its callback
  closed over when the effect created it. \<open>startCalls\<close> counts the calls of
  \<open>onAnimationStart\<close>, \<open>rafQueue\<close> the pending \<open>requestAnimationFrame\<close> callbacks (each of
  them is \<open>controls.start('visible')\<close>) and \<open>visibleStarts\<close> the calls of
  \<open>controls.start('visible')\<close> made so far.
\<close>

record section_state =
  hasAnimated :: bool
  observer :: "bool option"
  startCalls :: nat
  rafQueue :: nat
  visibleStarts :: nat

text \<open>
  The body of the effect. \<open>sectionRef\<close> is \<open>sectionRef.current\<close>, \<open>None\<close> for null. The
  cleanup function exists only on the branch that created an observer.
\<close>

definition observerEffect :: "unit option \<Rightarrow> bool \<Rightarrow> section_state \<Rightarrow> section_state" where
  "observerEffect sectionRef prefersReducedMotion st =
     (if sectionRef = None \<or> prefersReducedMotion
      then st\<lparr>visibleStarts := visibleStarts st + 1\<rparr>
      else st\<lparr>observer := Some (hasAnimated st)\<rparr>)"

definition effectCleanup :: "section_state \<Rightarrow> section_state" where
  "effectCleanup st = st\<lparr>observer := None\<rparr>"

text \<open>The state right after mounting: the first render, then the effect.\<close>

definition mountSection :: "unit option \<Rightarrow> bool \<Rightarrow> section_state" where
  "mountSection sectionRef prefersReducedMotion =
     observerEffect sectionRef prefersReducedMotion
       \<lparr>hasAnimated = False, observer = None, startCalls = 0, rafQueue = 0, visibleStarts = 0\<rparr>"

text \<open>
  The observer's callback, \<open>entries.forEach(...)\<close>: \<open>h\<close> is the closed-over \<open>hasAnimated\<close>,
  which the loop never changes, and each entry is its \<open>isIntersecting\<close> flag.
\<close>

fun observerCallback :: "bool \<Rightarrow> bool list \<Rightarrow> section_state \<Rightarrow> section_state" where
  "observerCallback h [] st = st"
| "observerCallback h (isIntersecting # entries) st =
     observerCallback h entries
       (if isIntersecting \<and> \<not> h
        then st\<lparr>hasAnimated := True, startCalls := startCalls st + 1, rafQueue := rafQueue st + 1\<rparr>
        else st)"

text \<open>
  The events of a mounted section: one delivery of the observer's callback with its
  entries, and one animation frame, which runs the queued callbacks. After a delivery
  React re-renders; the effect's dependency \<open>hasAnimated\<close> decides whether the effect is
  cleaned up and run again (the other dependencies are taken as stable).
\<close>

datatype section_event = Intersections "bool list" | Frame

fun sectionStep :: "unit option \<Rightarrow> bool \<Rightarrow> section_event \<Rightarrow> section_state \<Rightarrow> section_state" where
  "sectionStep sectionRef prm (Intersections entries) st =
     (case observer st of
        None \<Rightarrow> st
      | Some h \<Rightarrow>
          let st' = observerCallback h entries st
          in if hasAnimated st' = hasAnimated st then st'
             else observerEffect sectionRef prm (effectCleanup st'))"
| "sectionStep sectionRef prm Frame st =
     st\<lparr>visibleStarts := visibleStarts st + rafQueue st, rafQueue := 0\<rparr>"

fun sectionRun :: "unit option \<Rightarrow> bool \<Rightarrow> section_event list \<Rightarrow> section_state \<Rightarrow> section_state" where
  "sectionRun sectionRef prm [] st = st"
| "sectionRun sectionRef prm (ev # evs) st = sectionRun sectionRef prm evs (sectionStep sectionRef prm ev st)"

text \<open>The number of entries of a delivery that report an intersection.\<close>

definition intersecting :: "section_event \<Rightarrow> nat" where
  "intersecting ev = (case ev of Intersections entries \<Rightarrow> length (filter id entries) | Frame \<Rightarrow> 0)"

section \<open>Fixtures and auxiliary notions\<close>

text \<open>The default values of the props (AnimatedSection.tsx, lines 43-49).\<close>

definition defaultProps :: props where
  "defaultProps = \<lparr>animationType = Slide, triggerOffset = 0.1, duration = 1, intensity = Medium,
     className = [], enableParticles = False, enable3D = True\<rparr>"

text \<open>Two environments: an eight-core desktop with 8 GB and a two-core phone with 2 GB.\<close>

definition desktopEnv :: navigator_env where
  "desktopEnv = \<lparr>windowDefined = True, mediaReducedMotion = False, hardwareConcurrency = 8,
     deviceMemory = Some 8, userAgentMobile = False\<rparr>"

definition phoneEnv :: navigator_env where
  "phoneEnv = \<lparr>windowDefined = True, mediaReducedMotion = False, hardwareConcurrency = 2,
     deviceMemory = Some 2, userAgentMobile = True\<rparr>"

text \<open>The time an event takes on the simulated clock, and the time a list of events takes.\<close>

fun delay :: "card_event \<Rightarrow> nat" where
  "delay (Advance d) = d"
| "delay _ = 0"

definition elapsed :: "card_event list \<Rightarrow> nat" where
  "elapsed evs = sum_list (map delay evs)"

fun isClick :: "card_event \<Rightarrow> bool" where
  "isClick (Click rnd) = True"
| "isClick _ = False"

text \<open>
  \<open>locked T st\<close>: the flip lock is set and no pending timeout is due before \<open>T\<close>, a time at
  most 800 ms ahead.
\<close>

definition locked :: "nat \<Rightarrow> card \<Rightarrow> bool" where
  "locked T st = (isFlipping st \<and> T \<le> clock st + 800 \<and> list_all (\<lambda>due. T \<le> due) (timeouts st))"

text \<open>
  The two shapes of the state of a mounted, observed section: still waiting for its first
  intersection, or latched, with an observer whose callback closed over \<open>hasAnimated = true\<close>.
\<close>

definition waiting :: "section_state \<Rightarrow> bool" where
  "waiting st = (\<not> hasAnimated st \<and> observer st = Some False \<and> startCalls st = 0
      \<and> rafQueue st = 0 \<and> visibleStarts st = 0)"

definition latched :: "section_state \<Rightarrow> bool" where
  "latched st = (hasAnimated st \<and> observer st = Some True)"

section \<open>The particle system\<close>

lemma length_slice_neg: "length (slice_neg n xs) = min n (length xs)"
  by (simp add: slice_neg_def)

lemma createParticleBurst_length:
  "length (particles (createParticleBurst rnd st)) = min 20 (length (particles st) + 3)"
  by (simp add: createParticleBurst_def length_slice_neg)

text \<open>A burst keeps a suffix of the extended list: what it drops are the oldest particles.\<close>

lemma createParticleBurst_keeps_newest:
  "\<exists>dropped. particles st @ map (burstParticle rnd (particleIdRef st)) [0..<3]
      = dropped @ particles (createParticleBurst rnd st)"
  unfolding createParticleBurst_def slice_neg_def by (simp, metis append_take_drop_id)

lemma handleCardClick_length:
  "length (particles (handleCardClick rnd st)) = length (particles st) + 15"
  by (simp add: handleCardClick_def)

text \<open>
  C1. The claim: after any sequence of bursts and click explosions the particle list holds
  at most 20 particles, the oldest being dropped first. A burst does cap the list at 20
  (\<open>slice(-20)\<close>), but the click handler appends its 15 particles with no cap: two clicks
  on a freshly mounted card leave 30 particles.
\<close>

theorem click_exceeds_particle_cap:
  "length (particles (createParticleBurst rnd st)) = min 20 (length (particles st) + 3)
   \<and> length (particles (handleCardClick rnd st)) = length (particles st) + 15
   \<and> length (particles (cardRun [Click (\<lambda>i. 1 / 2), Click (\<lambda>i. 1 / 2)] initialCard)) = 30"
  by (simp add: createParticleBurst_length handleCardClick_length)
     (simp add: handleCardClick_def initialCard_def)

text \<open>
  C2. One integration step maps every particle \<open>{x, y, vx, vy}\<close> to
  \<open>{x + vx, y + vy, vx, vy + 0.2}\<close> (the id is kept) and then keeps, in order, exactly the
  moved particles with \<open>y < 600\<close> and \<open>-50 < x < 450\<close>; so every particle that survives a
  step is inside these bounds.
\<close>

theorem animateParticles_step:
  "animateParticles prev =
     filter (\<lambda>q. p_y q < 600 \<and> - 50 < p_x q \<and> p_x q < 450)
       (map (\<lambda>p. \<lparr>p_id = p_id p, p_x = p_x p + p_vx p, p_y = p_y p + p_vy p,
                   p_vx = p_vx p, p_vy = p_vy p + 0.2\<rparr>) prev)
   \<and> (\<forall>q \<in> set (animateParticles prev). p_y q < 600 \<and> - 50 < p_x q \<and> p_x q < 450)"
proof -
  have m: "moveParticle = (\<lambda>p. \<lparr>p_id = p_id p, p_x = p_x p + p_vx p, p_y = p_y p + p_vy p,
                   p_vx = p_vx p, p_vy = p_vy p + 0.2\<rparr>)"
    by (rule ext) (simp add: moveParticle_def)
  have b: "inBounds = (\<lambda>q. p_y q < 600 \<and> - 50 < p_x q \<and> p_x q < 450)"
    by (rule ext) (auto simp: inBounds_def)
  show ?thesis
    unfolding animateParticles_def m b by simp
qed

text \<open>
  Three particles: the first stays inside, the second falls to \<open>y = 601\<close>, the third
  reaches \<open>x = 450\<close>.
\<close>

theorem animateParticles_step_witness:
  "animateParticles
     [\<lparr>p_id = 0, p_x = 10, p_y = 598, p_vx = 1, p_vy = 1\<rparr>,
      \<lparr>p_id = 1, p_x = 10, p_y = 598, p_vx = 1, p_vy = 3\<rparr>,
      \<lparr>p_id = 2, p_x = 449, p_y = 100, p_vx = 1, p_vy = - 2\<rparr>]
   = [\<lparr>p_id = 0, p_x = 11, p_y = 599, p_vx = 1, p_vy = 1.2\<rparr>]
   \<and> (599 :: real) < 600 \<and> - 50 < (11 :: real) \<and> (11 :: real) < 450"
  using animateParticles_step [of "[\<lparr>p_id = 0, p_x = 10, p_y = 598, p_vx = 1, p_vy = 1\<rparr>,
      \<lparr>p_id = 1, p_x = 10, p_y = 598, p_vx = 1, p_vy = 3\<rparr>,
      \<lparr>p_id = 2, p_x = 449, p_y = 100, p_vx = 1, p_vy = - 2\<rparr>]"]
  by simp

section \<open>The flip lock\<close>

lemma createParticleBurst_fields [simp]:
  "isFlipped (createParticleBurst rnd st) = isFlipped st"
  "isFlipping (createParticleBurst rnd st) = isFlipping st"
  "clock (createParticleBurst rnd st) = clock st"
  "timeouts (createParticleBurst rnd st) = timeouts st"
  by (simp_all add: createParticleBurst_def)

lemma handleMouseMove_fields [simp]:
  "isFlipped (handleMouseMove e cardRef isHovered rnd st) = isFlipped st"
  "isFlipping (handleMouseMove e cardRef isHovered rnd st) = isFlipping st"
  "clock (handleMouseMove e cardRef isHovered rnd st) = clock st"
  "timeouts (handleMouseMove e cardRef isHovered rnd st) = timeouts st"
  by (simp_all add: handleMouseMove_def Let_def split: option.splits)

lemma cardStep_clock: "clock (cardStep ev st) = clock st + delay ev"
  by (cases ev)
     (simp_all add: handleMouseEnter_def handleMouseLeave_def handleCardClick_def
        handleFocus_def handleBlur_def advanceTimers_def Let_def)

lemma cardRun_clock: "clock (cardRun evs st) = clock st + elapsed evs"
  by (induction evs arbitrary: st) (simp_all add: cardStep_clock elapsed_def)

lemma cardStep_isFlipped: "\<not> isClick ev \<Longrightarrow> isFlipped (cardStep ev st) = isFlipped st"
  by (cases ev)
     (simp_all add: handleMouseEnter_def handleMouseLeave_def
        handleFocus_def handleBlur_def advanceTimers_def Let_def)

lemma cardRun_isFlipped:
  "\<forall>ev \<in> set evs. \<not> isClick ev \<Longrightarrow> isFlipped (cardRun evs st) = isFlipped st"
  by (induction evs arbitrary: st) (simp_all add: cardStep_isFlipped)

text \<open>A pending timeout stays pending as long as the clock has not reached it.\<close>

lemma cardStep_keeps_timeout:
  "T \<in> set (timeouts st) \<Longrightarrow> clock st + delay ev < T \<Longrightarrow> T \<in> set (timeouts (cardStep ev st))"
  by (cases ev)
     (simp_all add: handleMouseEnter_def handleMouseLeave_def handleCardClick_def
        handleFocus_def handleBlur_def advanceTimers_def Let_def)

lemma cardRun_keeps_timeout:
  "T \<in> set (timeouts st) \<Longrightarrow> clock st + elapsed evs < T \<Longrightarrow> T \<in> set (timeouts (cardRun evs st))"
proof (induction evs arbitrary: st)
  case Nil
  then show ?case by simp
next
  case (Cons ev evs)
  from Cons.prems have "clock st + delay ev < T" and "clock (cardStep ev st) + elapsed evs < T"
    by (simp_all add: elapsed_def cardStep_clock)
  with Cons.prems(1) Cons.IH [of "cardStep ev st"] show ?case
    by (simp add: cardStep_keeps_timeout)
qed

lemma advanceTimers_fires:
  "T \<in> set (timeouts st) \<Longrightarrow> T \<le> clock st + d \<Longrightarrow> \<not> isFlipping (advanceTimers d st)"
  by (auto simp: advanceTimers_def Let_def filter_empty_conv)

lemma flipping_released:
  assumes "elapsed evs + d = 800" and "0 < d"
  shows "\<not> isFlipping (advanceTimers d (cardRun evs (handleCardClick rnd st)))"
proof -
  let ?T = "clock st + 800"
  let ?c = "handleCardClick rnd st"
  have "?T \<in> set (timeouts ?c)" and c: "clock ?c = clock st"
    by (simp_all add: handleCardClick_def)
  moreover from assms have "clock ?c + elapsed evs < ?T"
    by (simp add: c)
  ultimately have "?T \<in> set (timeouts (cardRun evs ?c))"
    by (simp add: cardRun_keeps_timeout)
  moreover from assms have "?T \<le> clock (cardRun evs ?c) + d"
    by (simp add: cardRun_clock c)
  ultimately show ?thesis by (rule advanceTimers_fires)
qed

text \<open>While the clock is short of \<open>T\<close>, no event releases a lock that holds until \<open>T\<close>.\<close>

lemma locked_step:
  "locked T st \<Longrightarrow> clock st + delay ev < T \<Longrightarrow> locked T (cardStep ev st)"
  by (cases ev)
     (auto simp: locked_def handleMouseEnter_def handleMouseLeave_def handleCardClick_def
        handleFocus_def handleBlur_def advanceTimers_def Let_def list_all_iff filter_empty_conv)

lemma locked_run:
  "locked T st \<Longrightarrow> clock st + elapsed evs < T \<Longrightarrow> locked T (cardRun evs st)"
proof (induction evs arbitrary: st)
  case Nil
  then show ?case by simp
next
  case (Cons ev evs)
  from Cons.prems have "clock st + delay ev < T" and "clock (cardStep ev st) + elapsed evs < T"
    by (simp_all add: elapsed_def cardStep_clock)
  with Cons.prems(1) Cons.IH [of "cardStep ev st"] show ?case
    by (simp add: locked_step)
qed

lemma flipping_held:
  assumes "\<forall>due \<in> set (timeouts st). clock st + 800 \<le> due" and "elapsed evs < 800"
  shows "isFlipping (cardRun evs (handleCardClick rnd st))"
proof -
  from assms(1) have "locked (clock st + 800) (handleCardClick rnd st)"
    by (simp add: locked_def handleCardClick_def list_all_iff)
  moreover from assms(2) have "clock (handleCardClick rnd st) + elapsed evs < clock st + 800"
    by (simp add: handleCardClick_def)
  ultimately have "locked (clock st + 800) (cardRun evs (handleCardClick rnd st))"
    by (rule locked_run)
  then show ?thesis by (simp add: locked_def)
qed

text \<open>
  C3, as the spec states it: every click sets \<open>flipping\<close>, which returns to false exactly
  800 ms later, whatever clicks fall inside that window. This fails for a click made
  inside the window of an earlier click. Clicks at 0 ms and at 400 ms: the second click
  sets \<open>flipping\<close>, the timer of the first click clears it at 800 ms, which is 400 ms after
  the second click, and the second click's own timer is still pending for 1200 ms.
\<close>

theorem second_click_lock_counterexample:
  "isFlipping (cardRun [Click (\<lambda>i. 1 / 2), Advance 400, Click (\<lambda>i. 1 / 2)] initialCard)
   \<and> \<not> isFlipping
        (cardRun [Click (\<lambda>i. 1 / 2), Advance 400, Click (\<lambda>i. 1 / 2), Advance 400] initialCard)
   \<and> clock
        (cardRun [Click (\<lambda>i. 1 / 2), Advance 400, Click (\<lambda>i. 1 / 2), Advance 400] initialCard) = 800
   \<and> timeouts
        (cardRun [Click (\<lambda>i. 1 / 2), Advance 400, Click (\<lambda>i. 1 / 2), Advance 400] initialCard) = [1200]"
  by (simp add: handleCardClick_def advanceTimers_def initialCard_def)

text \<open>
  C3, amended. A click toggles \<open>flipped\<close> once and sets \<open>flipping\<close>. Whatever events
  (further clicks included) fall inside the next 800 ms, \<open>flipping\<close> is false when the
  clock reaches 800 ms after the click, because the click's own timer fires then. If every
  timer that is pending at the click is due no earlier than that, in particular if none is
  pending, \<open>flipping\<close> stays true during the whole 800 ms. A second click inside the
  window is not blocked: it toggles \<open>flipped\<close> back.
\<close>

theorem flip_lock_timing:
  "isFlipped (handleCardClick rnd st) = (\<not> isFlipped st)
   \<and> isFlipping (handleCardClick rnd st)
   \<and> (elapsed evs + d = 800 \<and> 0 < d \<longrightarrow>
        \<not> isFlipping (advanceTimers d (cardRun evs (handleCardClick rnd st))))
   \<and> ((\<forall>due \<in> set (timeouts st). clock st + 800 \<le> due) \<and> elapsed evs < 800 \<longrightarrow>
        isFlipping (cardRun evs (handleCardClick rnd st)))
   \<and> ((\<forall>ev \<in> set evs. \<not> isClick ev) \<longrightarrow>
        isFlipped (handleCardClick rnd' (cardRun evs (handleCardClick rnd st))) = isFlipped st)"
proof -
  have toggle: "\<And>r s. isFlipped (handleCardClick r s) = (\<not> isFlipped s)"
    by (simp add: handleCardClick_def)
  have "isFlipping (handleCardClick rnd st)"
    by (simp add: handleCardClick_def)
  moreover have "(\<forall>ev \<in> set evs. \<not> isClick ev) \<longrightarrow>
      isFlipped (handleCardClick rnd' (cardRun evs (handleCardClick rnd st))) = isFlipped st"
    by (simp add: toggle cardRun_isFlipped)
  ultimately show ?thesis
    using toggle [of rnd st] flipping_released [of evs d rnd st] flipping_held [of st evs rnd]
    by blast
qed

text \<open>
  A click on a fresh card, a second click 400 ms later and 399 ms more: the lock is still
  set, and one more millisecond releases it. With a mouse-leave instead of the second
  click, a click after 400 ms restores the original face.
\<close>

theorem flip_lock_timing_witness:
  "elapsed [Advance 400, Click (\<lambda>i. 1 / 2), Advance 399] + 1 = 800
   \<and> timeouts initialCard = []
   \<and> isFlipping (cardRun [Advance 400, Click (\<lambda>i. 1 / 2), Advance 399]
        (handleCardClick (\<lambda>i. 1 / 2) initialCard))
   \<and> \<not> isFlipping (advanceTimers 1 (cardRun [Advance 400, Click (\<lambda>i. 1 / 2), Advance 399]
        (handleCardClick (\<lambda>i. 1 / 2) initialCard)))
   \<and> isFlipped (handleCardClick (\<lambda>i. 1 / 2) initialCard)
   \<and> \<not> isFlipped (handleCardClick (\<lambda>i. 1 / 2)
        (cardRun [MouseLeave, Advance 400] (handleCardClick (\<lambda>i. 1 / 2) initialCard)))"
  using flip_lock_timing [where rnd = "\<lambda>i. 1 / 2" and st = initialCard and d = 1
      and evs = "[Advance 400, Click (\<lambda>i. 1 / 2), Advance 399]" and rnd' = "\<lambda>i. 1 / 2"]
    flip_lock_timing [where rnd = "\<lambda>i. 1 / 2" and st = initialCard and d = 400
      and evs = "[MouseLeave, Advance 400]" and rnd' = "\<lambda>i. 1 / 2"]
  by (simp add: elapsed_def initialCard_def)

section \<open>Pointer tracking\<close>

lemma rotateX_cases:
  "rotateX v = (if v \<le> - 0.5 then 25 else if 0.5 \<le> v then - 25 else - 50 * v)"
  by (simp add: rotateX_def useTransform_def max_def min_def field_simps)

lemma rotateY_cases:
  "rotateY v = (if v \<le> - 0.5 then - 25 else if 0.5 \<le> v then 25 else 50 * v)"
  by (simp add: rotateY_def useTransform_def max_def min_def field_simps)

lemma levitateY_cases:
  "levitateY v = (if v \<le> - 0.5 then - 30 else if 0.5 \<le> v then - 60 else - 45 - 30 * v)"
  by (simp add: levitateY_def useTransform_def max_def min_def field_simps)

lemma levitateZ_cases:
  "levitateZ v = (if v \<le> - 0.5 then 20 else if 0.5 \<le> v then 80 else 50 + 60 * v)"
  by (simp add: levitateZ_def useTransform_def max_def min_def field_simps)

lemma depthScale_cases:
  "depthScale v = (if v \<le> - 0.5 then 1.02 else if 0.5 \<le> v then 1.15 else 1.085 + 0.13 * v)"
  by (simp add: depthScale_def useTransform_def max_def min_def field_simps)

lemma transform_bounds:
  "- 25 \<le> rotateX v \<and> rotateX v \<le> 25 \<and> - 25 \<le> rotateY v \<and> rotateY v \<le> 25
   \<and> - 60 \<le> levitateY v \<and> levitateY v \<le> - 30 \<and> 20 \<le> levitateZ v \<and> levitateZ v \<le> 80
   \<and> 1.02 \<le> depthScale v \<and> depthScale v \<le> 1.15"
  by (simp add: rotateX_cases rotateY_cases levitateY_cases levitateZ_cases depthScale_cases)

lemma mouseMoves_flipped:
  "isFlipped st \<Longrightarrow>
   cardRun (map (\<lambda>(e, cardRef, isHovered, rnd). MouseMove e cardRef isHovered rnd) ms) st = st"
  by (induction ms) (auto simp: handleMouseMove_def split: option.splits)

text \<open>
  C6, as the spec states it: the interpolated depth and scale are what the card applies
  while it is unflipped and hovered or focused. They are not: with the smoothed pointer at
  0.5 on both axes the interpolated depth is 80 and the interpolated scale 1.15, but a
  hovered card applies depth 60 and scale 1.08, and a focused card applies depth 100,
  outside the interval from 20 to 80.
\<close>

theorem applied_depth_counterexample:
  "levitateZ 0.5 = 80 \<and> a_z (innerAnimate True 0.5 0.5 initialCard) = 60
   \<and> depthScale 0.5 = 1.15 \<and> a_scale (innerAnimate True 0.5 0.5 initialCard) = 1.08
   \<and> a_z (innerAnimate False 0.5 0.5 (handleFocus initialCard)) = 100"
  by (simp add: levitateZ_cases depthScale_cases innerAnimate_def initialCard_def handleFocus_def)

text \<open>
  C6, amended. For every smoothed pointer value \<open>v\<close>, also outside the domain, the
  pointer-derived values are linear in \<open>v\<close> on the domain from -0.5 to 0.5 and keep their
  endpoint value outside it: rotation stays between -25 and 25, the lift between -60 and
  -30, the depth between 20 and 80, the scale between 1.02 and 1.15. The depth and the
  scale the card applies while it is unflipped and hovered or focused are not these
  interpolated values but constants: 60 and 1.08 when hovered, otherwise 100 and 1.12.
\<close>

theorem pointer_transforms:
  "- 25 \<le> rotateX v \<and> rotateX v \<le> 25 \<and> - 25 \<le> rotateY v \<and> rotateY v \<le> 25
   \<and> - 60 \<le> levitateY v \<and> levitateY v \<le> - 30 \<and> 20 \<le> levitateZ v \<and> levitateZ v \<le> 80
   \<and> 1.02 \<le> depthScale v \<and> depthScale v \<le> 1.15
   \<and> (- 0.5 \<le> v \<and> v \<le> 0.5 \<longrightarrow>
        rotateX v = - 50 * v \<and> rotateY v = 50 * v \<and> levitateY v = - 45 - 30 * v
        \<and> levitateZ v = 50 + 60 * v \<and> depthScale v = 1.085 + 0.13 * v)
   \<and> (v \<le> - 0.5 \<longrightarrow>
        rotateX v = 25 \<and> rotateY v = - 25 \<and> levitateY v = - 30
        \<and> levitateZ v = 20 \<and> depthScale v = 1.02)
   \<and> (0.5 \<le> v \<longrightarrow>
        rotateX v = - 25 \<and> rotateY v = 25 \<and> levitateY v = - 60
        \<and> levitateZ v = 80 \<and> depthScale v = 1.15)
   \<and> (\<not> isFlipped st \<and> (isHovered \<or> isFocused st) \<longrightarrow>
        a_z (innerAnimate isHovered springX springY st) = (if isHovered then 60 else 100)
        \<and> a_scale (innerAnimate isHovered springX springY st) = (if isHovered then 1.08 else 1.12))"
proof -
  have "- 0.5 \<le> v \<and> v \<le> 0.5 \<longrightarrow>
        rotateX v = - 50 * v \<and> rotateY v = 50 * v \<and> levitateY v = - 45 - 30 * v
        \<and> levitateZ v = 50 + 60 * v \<and> depthScale v = 1.085 + 0.13 * v"
    by (auto simp: rotateX_cases rotateY_cases levitateY_cases levitateZ_cases depthScale_cases)
  moreover have "v \<le> - 0.5 \<longrightarrow>
        rotateX v = 25 \<and> rotateY v = - 25 \<and> levitateY v = - 30
        \<and> levitateZ v = 20 \<and> depthScale v = 1.02"
    by (simp add: rotateX_cases rotateY_cases levitateY_cases levitateZ_cases depthScale_cases)
  moreover have "0.5 \<le> v \<longrightarrow>
        rotateX v = - 25 \<and> rotateY v = 25 \<and> levitateY v = - 60
        \<and> levitateZ v = 80 \<and> depthScale v = 1.15"
    by (simp add: rotateX_cases rotateY_cases levitateY_cases levitateZ_cases depthScale_cases)
  moreover have "\<not> isFlipped st \<and> (isHovered \<or> isFocused st) \<longrightarrow>
        a_z (innerAnimate isHovered springX springY st) = (if isHovered then 60 else 100)
        \<and> a_scale (innerAnimate isHovered springX springY st) = (if isHovered then 1.08 else 1.12)"
    by (auto simp: innerAnimate_def)
  ultimately show ?thesis
    using transform_bounds [of v] by blast
qed

text \<open>
  Inside the domain at \<open>v = 0.25\<close>, beyond it at 3 and at -3, and the depth and scale of
  a hovered and of a focused unflipped card at the smoothed pointer (0.1, 0.25).
\<close>

theorem pointer_transforms_witness:
  "rotateX 0.25 = - 12.5 \<and> rotateY 0.25 = 12.5 \<and> levitateY 0.25 = - 52.5
   \<and> levitateZ 0.25 = 65 \<and> depthScale 0.25 = 1.1175
   \<and> rotateX 3 = - 25 \<and> levitateZ 3 = 80 \<and> rotateX (- 3) = 25 \<and> levitateZ (- 3) = 20
   \<and> \<not> isFlipped initialCard
   \<and> a_z (innerAnimate True 0.1 0.25 initialCard) = 60
   \<and> a_scale (innerAnimate True 0.1 0.25 initialCard) = 1.08
   \<and> isFocused (handleFocus initialCard)
   \<and> a_z (innerAnimate False 0.1 0.25 (handleFocus initialCard)) = 100
   \<and> a_scale (innerAnimate False 0.1 0.25 (handleFocus initialCard)) = 1.12"
  using pointer_transforms [where v = "0.25" and st = initialCard and isHovered = True
      and springX = "0.1" and springY = "0.25"]
    pointer_transforms [where v = 3 and st = "handleFocus initialCard" and isHovered = False
      and springX = "0.1" and springY = "0.25"]
    pointer_transforms [where v = "- 3" and st = initialCard and isHovered = True
      and springX = "0.1" and springY = "0.25"]
  by (simp add: initialCard_def handleFocus_def)


text \<open>
  C7. While \<open>flipped\<close> is true a pointer-move changes nothing: \<open>handleMouseMove\<close> returns
  the state as it is, so \<open>mouseX\<close>, \<open>mouseY\<close> and the particle list are unchanged, also
  after any number of pointer-moves, and the inner element's animation target is the
  neutral one (no tilt, no lift, no depth, scale 1) for any pointer values.
\<close>

theorem flipped_ignores_pointer:
  "isFlipped st \<Longrightarrow>
     handleMouseMove e cardRef isHovered rnd st = st
     \<and> mouseX (handleMouseMove e cardRef isHovered rnd st) = mouseX st
     \<and> mouseY (handleMouseMove e cardRef isHovered rnd st) = mouseY st
     \<and> particles (handleMouseMove e cardRef isHovered rnd st) = particles st
     \<and> cardRun (map (\<lambda>(e, cardRef, isHovered, rnd). MouseMove e cardRef isHovered rnd) ms) st = st
     \<and> innerAnimate isHovered springX springY st = \<lparr>a_rotateX = 0, a_y = 0, a_z = 0, a_scale = 1\<rparr>"
  using mouseMoves_flipped [of st ms]
  by (simp add: handleMouseMove_def innerAnimate_def split: option.splits)

text \<open>
  A card flipped by one click, hovered, with the pointer at (30, 40) over a 400 by 500
  rectangle and a random draw above 0.95; on the unflipped card the same event does move
  \<open>mouseX\<close>.
\<close>

theorem flipped_ignores_pointer_witness:
  "isFlipped (handleCardClick (\<lambda>i. 1 / 2) initialCard)
   \<and> handleMouseMove \<lparr>clientX = 30, clientY = 40\<rparr>
        (Some \<lparr>rect_left = 0, rect_top = 0, rect_width = 400, rect_height = 500\<rparr>) True (\<lambda>i. 1)
        (handleCardClick (\<lambda>i. 1 / 2) initialCard)
      = handleCardClick (\<lambda>i. 1 / 2) initialCard
   \<and> innerAnimate True 0.3 0.4 (handleCardClick (\<lambda>i. 1 / 2) initialCard)
      = \<lparr>a_rotateX = 0, a_y = 0, a_z = 0, a_scale = 1\<rparr>
   \<and> mouseX (handleMouseMove \<lparr>clientX = 30, clientY = 40\<rparr>
        (Some \<lparr>rect_left = 0, rect_top = 0, rect_width = 400, rect_height = 500\<rparr>) True (\<lambda>i. 1)
        initialCard) = - 0.85"
proof -
  have flipped: "isFlipped (handleCardClick (\<lambda>i. 1 / 2) initialCard)"
    by (simp add: handleCardClick_def initialCard_def)
  have moved: "mouseX (handleMouseMove \<lparr>clientX = 30, clientY = 40\<rparr>
        (Some \<lparr>rect_left = 0, rect_top = 0, rect_width = 400, rect_height = 500\<rparr>) True (\<lambda>i. 1)
        initialCard) = - 0.85"
    by (simp add: handleMouseMove_def initialCard_def createParticleBurst_def)
  from flipped moved
    flipped_ignores_pointer [OF flipped, where e = "\<lparr>clientX = 30, clientY = 40\<rparr>"
      and cardRef = "Some \<lparr>rect_left = 0, rect_top = 0, rect_width = 400, rect_height = 500\<rparr>"
      and isHovered = True and rnd = "\<lambda>i. 1" and springX = "0.3" and springY = "0.4" and ms = "[]"]
  show ?thesis by simp
qed

section \<open>Registration\<close>

text \<open>
  C5. A click on Register with the title "Brand-o-Vation" opens exactly
  https://brand-o-vation.vercel.app/ with target \<open>_blank\<close> and the features
  \<open>noopener,noreferrer\<close>, and clears the opener of the window object if one is returned;
  "Ventura", "The Paradox Protocol" and "Capitalyze" go to their fixed addresses the same
  way. Every other title gives the notice "Registration for <title> coming soon!" and
  nothing else, so no window is opened.
\<close>

theorem register_routes:
  "snd (registerOnClick ''Brand-o-Vation'' opened) =
     WindowOpen ''https://brand-o-vation.vercel.app/'' ''_blank'' ''noopener,noreferrer''
       # (if opened then [SetOpenerNull] else [])
   \<and> snd (registerOnClick ''Ventura'' opened) =
     WindowOpen ''https://ventura-zeta.vercel.app/'' ''_blank'' ''noopener,noreferrer''
       # (if opened then [SetOpenerNull] else [])
   \<and> snd (registerOnClick ''The Paradox Protocol'' opened) =
     WindowOpen ''https://paradox-protocol-theta.vercel.app/'' ''_blank'' ''noopener,noreferrer''
       # (if opened then [SetOpenerNull] else [])
   \<and> snd (registerOnClick ''Capitalyze'' opened) =
     WindowOpen ''https://capitalyze.vercel.app/'' ''_blank'' ''noopener,noreferrer''
       # (if opened then [SetOpenerNull] else [])
   \<and> (title \<notin> {''Brand-o-Vation'', ''Ventura'', ''The Paradox Protocol'', ''Capitalyze''} \<longrightarrow>
        snd (registerOnClick title opened)
          = [Alert (''Registration for '' @ title @ '' coming soon!'')])"
  by (simp add: registerOnClick_def openEventSite_def)

text \<open>An unmapped title, and a mapped title in another letter case.\<close>

theorem register_routes_witness:
  "snd (registerOnClick ''Quiz Night'' True) = [Alert ''Registration for Quiz Night coming soon!'']
   \<and> snd (registerOnClick ''ventura'' False) = [Alert ''Registration for ventura coming soon!'']"
  using register_routes [where title = "''Quiz Night''" and opened = True]
    register_routes [where title = "''ventura''" and opened = False]
  by simp

text \<open>
  C9. A click on the Register button leaves the card's state as it is, for every title:
  the button's handler stops the propagation of the event, so the card's own click handler
  does not run; \<open>flipped\<close>, \<open>flipping\<close> and the particle list are unchanged.
\<close>

theorem register_click_leaves_card:
  "fst (registerOnClick title opened)
   \<and> fst (clickRegisterButton title opened rnd st) = st
   \<and> isFlipped (fst (clickRegisterButton title opened rnd st)) = isFlipped st
   \<and> isFlipping (fst (clickRegisterButton title opened rnd st)) = isFlipping st
   \<and> particles (fst (clickRegisterButton title opened rnd st)) = particles st
   \<and> timeouts (fst (clickRegisterButton title opened rnd st)) = timeouts st"
  by (simp add: clickRegisterButton_def registerOnClick_def)

section \<open>The one-shot trigger\<close>

lemma observerCallback_latched: "observerCallback True entries st = st"
  by (induction entries arbitrary: st) simp_all

lemma observerCallback_none:
  "filter id entries = [] \<Longrightarrow> observerCallback h entries st = st"
  by (induction entries arbitrary: st) (auto split: if_splits)

text \<open>A callback that closed over \<open>false\<close> fires once for every intersecting entry.\<close>

lemma observerCallback_count:
  "observerCallback False entries st =
     (if filter id entries = [] then st
      else st\<lparr>hasAnimated := True, startCalls := startCalls st + length (filter id entries),
              rafQueue := rafQueue st + length (filter id entries)\<rparr>)"
  by (induction entries arbitrary: st) auto

lemma sectionRun_append:
  "sectionRun sectionRef prm (evs @ evs') st =
     sectionRun sectionRef prm evs' (sectionRun sectionRef prm evs st)"
  by (induction evs arbitrary: st) simp_all

lemma latched_step:
  "latched st \<Longrightarrow> latched (sectionStep (Some ()) False ev st)
     \<and> startCalls (sectionStep (Some ()) False ev st) = startCalls st
     \<and> visibleStarts (sectionStep (Some ()) False ev st) + rafQueue (sectionStep (Some ()) False ev st)
         = visibleStarts st + rafQueue st"
  by (cases ev) (simp_all add: latched_def observerCallback_latched)

lemma latched_run:
  "latched st \<Longrightarrow> latched (sectionRun (Some ()) False evs st)
     \<and> startCalls (sectionRun (Some ()) False evs st) = startCalls st
     \<and> visibleStarts (sectionRun (Some ()) False evs st) + rafQueue (sectionRun (Some ()) False evs st)
         = visibleStarts st + rafQueue st"
proof (induction evs arbitrary: st)
  case Nil
  then show ?case by simp
next
  case (Cons ev evs)
  from latched_step [OF Cons.prems, of ev] Cons.IH [of "sectionStep (Some ()) False ev st"]
  show ?case by simp
qed

lemma waiting_mount: "waiting (mountSection (Some ()) False)"
  by (simp add: waiting_def mountSection_def observerEffect_def)

lemma waiting_step_quiet:
  "waiting st \<Longrightarrow> intersecting ev = 0 \<Longrightarrow> sectionStep (Some ()) False ev st = st"
  by (cases ev) (simp_all add: waiting_def intersecting_def observerCallback_none)

lemma waiting_step_fire:
  "waiting st \<Longrightarrow> intersecting ev = Suc n \<Longrightarrow>
     latched (sectionStep (Some ()) False ev st)
     \<and> startCalls (sectionStep (Some ()) False ev st) = Suc n
     \<and> visibleStarts (sectionStep (Some ()) False ev st) + rafQueue (sectionStep (Some ()) False ev st)
         = Suc n"
  by (cases ev)
     (auto simp: waiting_def intersecting_def observerCallback_count latched_def
        observerEffect_def effectCleanup_def Let_def)

text \<open>Every state a mounted, observed section reaches is waiting or latched.\<close>

lemma waiting_or_latched_step:
  "waiting st \<or> latched st \<Longrightarrow>
     waiting (sectionStep (Some ()) False ev st) \<or> latched (sectionStep (Some ()) False ev st)"
proof (cases "waiting st")
  case True
  show ?thesis
  proof (cases "intersecting ev")
    case 0
    with True show ?thesis by (simp add: waiting_step_quiet)
  next
    case (Suc n)
    with True show ?thesis by (simp add: waiting_step_fire)
  qed
next
  case False
  assume "waiting st \<or> latched st"
  with False have "latched st" by simp
  then show ?thesis by (simp add: latched_step)
qed

lemma waiting_or_latched_run:
  "waiting st \<or> latched st \<Longrightarrow>
     waiting (sectionRun (Some ()) False evs st) \<or> latched (sectionRun (Some ()) False evs st)"
proof (induction evs arbitrary: st)
  case Nil
  then show ?case by simp
next
  case (Cons ev evs)
  from Cons.IH [OF waiting_or_latched_step [OF Cons.prems, of ev]] show ?case by simp
qed

lemma hasAnimated_latched:
  "hasAnimated (sectionRun (Some ()) False evs (mountSection (Some ()) False)) \<Longrightarrow>
     latched (sectionRun (Some ()) False evs (mountSection (Some ()) False))"
  using waiting_or_latched_run [of "mountSection (Some ()) False" evs] waiting_mount
  by (auto simp: waiting_def)

text \<open>
  Deliveries made after the latch is set do not retrigger: once \<open>hasAnimated\<close> is true it
  stays true, and no later delivery or frame fires the start callback or schedules the
  transition again.
\<close>

lemma later_deliveries_do_not_retrigger:
  assumes "hasAnimated (sectionRun (Some ()) False evs (mountSection (Some ()) False))"
  shows "hasAnimated (sectionRun (Some ()) False (evs @ later) (mountSection (Some ()) False))
      \<and> startCalls (sectionRun (Some ()) False (evs @ later) (mountSection (Some ()) False))
          = startCalls (sectionRun (Some ()) False evs (mountSection (Some ()) False))
      \<and> visibleStarts (sectionRun (Some ()) False (evs @ later) (mountSection (Some ()) False))
          + rafQueue (sectionRun (Some ()) False (evs @ later) (mountSection (Some ()) False))
          = visibleStarts (sectionRun (Some ()) False evs (mountSection (Some ()) False))
          + rafQueue (sectionRun (Some ()) False evs (mountSection (Some ()) False))"
proof -
  from assms have "latched (sectionRun (Some ()) False evs (mountSection (Some ()) False))"
    by (rule hasAnimated_latched)
  from latched_run [OF this, of later] show ?thesis
    by (simp add: sectionRun_append latched_def)
qed

text \<open>
  C4. The claim: for every sequence of intersection observations delivered to a mounted
  section the latch goes from false to true at most once and never back, and later
  intersections (scroll-out followed by scroll-in) retrigger neither the animation nor
  the start callback. The guard \<open>entry.isIntersecting && !hasAnimated\<close> is there for this,
  but inside one delivery it reads the \<open>hasAnimated\<close> the callback closed over, which
  \<open>setHasAnimated(true)\<close> does not change. One delivery whose entries report scroll-in,
  scroll-out and scroll-in again, followed by an animation frame, fires the start callback
  twice and starts the visible-state transition twice; the latch itself is set.
\<close>

theorem stale_guard_retriggers:
  "hasAnimated (sectionRun (Some ()) False [Intersections [True, False, True], Frame]
        (mountSection (Some ()) False))
   \<and> startCalls (sectionRun (Some ()) False [Intersections [True, False, True], Frame]
        (mountSection (Some ()) False)) = 2
   \<and> visibleStarts (sectionRun (Some ()) False [Intersections [True, False, True], Frame]
        (mountSection (Some ()) False)) = 2"
  by (simp add: mountSection_def observerEffect_def effectCleanup_def)


section \<open>Reduced motion\<close>

lemma reduced_step:
  "sectionStep sectionRef True ev (mountSection sectionRef True) = mountSection sectionRef True"
  by (cases ev) (simp_all add: mountSection_def observerEffect_def)

lemma reduced_run:
  "sectionRun sectionRef True evs (mountSection sectionRef True) = mountSection sectionRef True"
  by (induction evs) (simp_all add: reduced_step)

text \<open>
  C8, as the spec states it: with reduced motion the content is presented in its final
  visible state at once, with no hidden frame before it. The element is rendered with
  \<open>initial="hidden"\<close>, and the reduced-motion variants are a hidden style of opacity 0 and
  a visible style of opacity 1 reached by a transition of 0.2 s: the first style rendered
  is the hidden one.
\<close>

theorem reduced_motion_hidden_frame_counterexample:
  "initialStyle (AnimatedSection defaultProps desktopEnv True) = [(''opacity'', 0)]
   \<and> visible (r_variants (AnimatedSection defaultProps desktopEnv True)) = [(''opacity'', 1)]
   \<and> tr_duration (visible_transition (r_variants (AnimatedSection defaultProps desktopEnv True)))
       = 0.2"
  by (simp add: initialStyle_def AnimatedSection_def getAnimationVariants_def)

text \<open>
  C8, amended. When the reduced-motion preference is active at mount, no intersection
  observer is attached, the mount effect itself starts the transition to the visible
  state (once, with nothing left waiting for an animation frame), and no later
  intersection or frame changes that. For every animation type the element is first
  rendered in the hidden variant, which is opacity 0 with no displacement, rotation or
  scale, and the visible variant is opacity 1, reached by a transition of 0.2 s.
\<close>

theorem reduced_motion_mount:
  "observer (mountSection sectionRef True) = None
   \<and> visibleStarts (mountSection sectionRef True) = 1
   \<and> rafQueue (mountSection sectionRef True) = 0
   \<and> startCalls (mountSection sectionRef True) = 0
   \<and> sectionRun sectionRef True evs (mountSection sectionRef True) = mountSection sectionRef True
   \<and> r_initial (AnimatedSection p env True) = ''hidden''
   \<and> initialStyle (AnimatedSection p env True) = [(''opacity'', 0)]
   \<and> visible (r_variants (AnimatedSection p env True)) = [(''opacity'', 1)]
   \<and> visible_transition (r_variants (AnimatedSection p env True))
       = \<lparr>tr_duration = 0.2, tr_ease = None, tr_staggerChildren = None, tr_delayChildren = None\<rparr>"
  by (simp add: reduced_run)
     (simp add: mountSection_def observerEffect_def initialStyle_def AnimatedSection_def
        getAnimationVariants_def)

section \<open>What the variants depend on\<close>

lemma optimizedSettings_alt_enableParticles:
  "s_enable3D (optimizedSettings_alt (p\<lparr>enableParticles := bp\<rparr>) perf)
     = s_enable3D (optimizedSettings_alt p perf)"
  "s_duration (optimizedSettings_alt (p\<lparr>enableParticles := bp\<rparr>) perf)
     = s_duration (optimizedSettings_alt p perf)"
  by (simp_all add: optimizedSettings_alt_def)

lemma getAnimationVariants_alt_enableParticles:
  "getAnimationVariants_alt (p\<lparr>enableParticles := bp\<rparr>) perf prm
     = getAnimationVariants_alt p perf prm"
  unfolding getAnimationVariants_alt_def optimizedSettings_alt_enableParticles by simp

lemma AnimatedSection_alt_enableParticles:
  "r_variants (AnimatedSection_alt (p\<lparr>enableParticles := bp\<rparr>) env prm)
     = r_variants (AnimatedSection_alt p env prm)"
  by (simp add: AnimatedSection_alt_def Let_def getAnimationVariants_alt_enableParticles)

text \<open>
  C10, as the spec states it: the version in part_001 varies its variants with the
  intensity, \<open>enable3D\<close> and \<open>enableParticles\<close> props and with the device signals. It does
  not vary them with \<open>enableParticles\<close>: for all props, environments and reduced-motion
  flags the variants of part_001 are the same whatever \<open>enableParticles\<close> is set to, for
  instance for the default props on the desktop.
\<close>

theorem alt_variants_ignore_enableParticles:
  "(\<forall>p env prm bp.
      r_variants (AnimatedSection_alt (p\<lparr>enableParticles := bp\<rparr>) env prm)
        = r_variants (AnimatedSection_alt p env prm))
   \<and> r_variants (AnimatedSection_alt (defaultProps\<lparr>enableParticles := True\<rparr>) desktopEnv False)
        = r_variants (AnimatedSection_alt defaultProps desktopEnv False)"
  by (simp add: AnimatedSection_alt_enableParticles)

text \<open>
  C10, amended. In the shipped component the variants are a function of the animation
  type, the base duration and the reduced-motion flag alone: two runs that agree on these
  return the same hidden and visible variants, whatever their other props and their
  environments are. A run that differs from another only in \<open>intensity\<close>, \<open>enable3D\<close>,
  \<open>enableParticles\<close> and the environment renders the same element, and the particle trail
  is never rendered. The version in part_001 does vary its variants with the intensity,
  with \<open>enable3D\<close>, with the number of cores, with the device memory and with the mobile
  user agent; it does not vary them with \<open>enableParticles\<close>, which only decides whether
  its particle trail is rendered.
\<close>

theorem variants_noninterference:
  "(animationType p = animationType p' \<and> duration p = duration p' \<longrightarrow>
      getAnimationVariants p prm = getAnimationVariants p' prm
      \<and> r_variants (AnimatedSection p env prm) = r_variants (AnimatedSection p' env' prm))
   \<and> AnimatedSection (p\<lparr>intensity := i, enable3D := b3, enableParticles := bp\<rparr>) env' prm
       = AnimatedSection p env prm
   \<and> \<not> r_particleTrail (AnimatedSection p env prm)
   \<and> r_variants (AnimatedSection_alt
          (defaultProps\<lparr>animationType := Rotate, intensity := Heavy\<rparr>) desktopEnv False)
       \<noteq> r_variants (AnimatedSection_alt (defaultProps\<lparr>animationType := Rotate\<rparr>) desktopEnv False)
   \<and> r_variants (AnimatedSection_alt
          (defaultProps\<lparr>animationType := Rotate, enable3D := False\<rparr>) desktopEnv False)
       \<noteq> r_variants (AnimatedSection_alt (defaultProps\<lparr>animationType := Rotate\<rparr>) desktopEnv False)
   \<and> r_variants (AnimatedSection_alt defaultProps
          (desktopEnv\<lparr>hardwareConcurrency := 2, userAgentMobile := True\<rparr>) False)
       \<noteq> r_variants (AnimatedSection_alt defaultProps (desktopEnv\<lparr>userAgentMobile := True\<rparr>) False)
   \<and> r_variants (AnimatedSection_alt defaultProps (desktopEnv\<lparr>deviceMemory := Some 2\<rparr>) False)
       \<noteq> r_variants (AnimatedSection_alt defaultProps desktopEnv False)
   \<and> r_variants (AnimatedSection_alt defaultProps
          (desktopEnv\<lparr>hardwareConcurrency := 2, userAgentMobile := True\<rparr>) False)
       \<noteq> r_variants (AnimatedSection_alt defaultProps (desktopEnv\<lparr>hardwareConcurrency := 2\<rparr>) False)
   \<and> r_variants (AnimatedSection_alt (p\<lparr>enableParticles := bp\<rparr>) env prm)
       = r_variants (AnimatedSection_alt p env prm)
   \<and> r_particleTrail (AnimatedSection_alt (defaultProps\<lparr>enableParticles := True\<rparr>) desktopEnv False)
       \<noteq> r_particleTrail (AnimatedSection_alt defaultProps desktopEnv False)"
proof -
  have shipped: "(animationType p = animationType p' \<and> duration p = duration p' \<longrightarrow>
      getAnimationVariants p prm = getAnimationVariants p' prm
      \<and> r_variants (AnimatedSection p env prm) = r_variants (AnimatedSection p' env' prm))
   \<and> AnimatedSection (p\<lparr>intensity := i, enable3D := b3, enableParticles := bp\<rparr>) env' prm
       = AnimatedSection p env prm
   \<and> \<not> r_particleTrail (AnimatedSection p env prm)"
    by (simp add: getAnimationVariants_def AnimatedSection_def optimizedSettings_def)
  have same: "r_variants (AnimatedSection_alt (p\<lparr>enableParticles := bp\<rparr>) env prm)
       = r_variants (AnimatedSection_alt p env prm)"
    by (rule AnimatedSection_alt_enableParticles)
  have alt: "r_variants (AnimatedSection_alt
          (defaultProps\<lparr>animationType := Rotate, intensity := Heavy\<rparr>) desktopEnv False)
       \<noteq> r_variants (AnimatedSection_alt (defaultProps\<lparr>animationType := Rotate\<rparr>) desktopEnv False)
   \<and> r_variants (AnimatedSection_alt
          (defaultProps\<lparr>animationType := Rotate, enable3D := False\<rparr>) desktopEnv False)
       \<noteq> r_variants (AnimatedSection_alt (defaultProps\<lparr>animationType := Rotate\<rparr>) desktopEnv False)
   \<and> r_variants (AnimatedSection_alt defaultProps
          (desktopEnv\<lparr>hardwareConcurrency := 2, userAgentMobile := True\<rparr>) False)
       \<noteq> r_variants (AnimatedSection_alt defaultProps (desktopEnv\<lparr>userAgentMobile := True\<rparr>) False)
   \<and> r_variants (AnimatedSection_alt defaultProps (desktopEnv\<lparr>deviceMemory := Some 2\<rparr>) False)
       \<noteq> r_variants (AnimatedSection_alt defaultProps desktopEnv False)
   \<and> r_variants (AnimatedSection_alt defaultProps
          (desktopEnv\<lparr>hardwareConcurrency := 2, userAgentMobile := True\<rparr>) False)
       \<noteq> r_variants (AnimatedSection_alt defaultProps (desktopEnv\<lparr>hardwareConcurrency := 2\<rparr>) False)
   \<and> r_particleTrail (AnimatedSection_alt (defaultProps\<lparr>enableParticles := True\<rparr>) desktopEnv False)
       \<noteq> r_particleTrail (AnimatedSection_alt defaultProps desktopEnv False)"
    by (simp add: AnimatedSection_alt_def getAnimationVariants_alt_def optimizedSettings_alt_def
        getDevicePerformance_def desktopEnv_def defaultProps_def when_keys_def)
  from shipped same alt show ?thesis by blast
qed

text \<open>
  The default props on the desktop against heavy intensity, no 3D and particles enabled
  on the phone, with a different trigger offset and class name: the same variants in the
  shipped component, different ones in part_001.
\<close>

theorem variants_noninterference_witness:
  "getAnimationVariants defaultProps False
     = getAnimationVariants
         (defaultProps\<lparr>triggerOffset := 0.5, intensity := Heavy, className := ''hero'',
            enableParticles := True, enable3D := False\<rparr>) False
   \<and> r_variants (AnimatedSection defaultProps desktopEnv False)
     = r_variants (AnimatedSection
         (defaultProps\<lparr>triggerOffset := 0.5, intensity := Heavy, className := ''hero'',
            enableParticles := True, enable3D := False\<rparr>) phoneEnv False)
   \<and> r_variants (AnimatedSection_alt defaultProps desktopEnv False)
     \<noteq> r_variants (AnimatedSection_alt
         (defaultProps\<lparr>triggerOffset := 0.5, intensity := Heavy, className := ''hero'',
            enableParticles := True, enable3D := False\<rparr>) phoneEnv False)"
proof -
  have alt: "r_variants (AnimatedSection_alt defaultProps desktopEnv False)
     \<noteq> r_variants (AnimatedSection_alt
         (defaultProps\<lparr>triggerOffset := 0.5, intensity := Heavy, className := ''hero'',
            enableParticles := True, enable3D := False\<rparr>) phoneEnv False)"
    by (simp add: AnimatedSection_alt_def getAnimationVariants_alt_def optimizedSettings_alt_def
        getDevicePerformance_def desktopEnv_def phoneEnv_def defaultProps_def)
  from alt
    variants_noninterference [where p = defaultProps and prm = False and env = desktopEnv
      and env' = phoneEnv
      and p' = "defaultProps\<lparr>triggerOffset := 0.5, intensity := Heavy, className := ''hero'',
            enableParticles := True, enable3D := False\<rparr>"]
  show ?thesis by (simp add: defaultProps_def)
qed

end
